theory Spec2Isabelle
  imports Complex_Main "HOL-Library.Log_Nat"
begin

section \<open>lab02: temperature by CEP, ServiceA (edge gateway) and ServiceB (resolution)\<close>

text \<open>
  A shallow embedding of \<^verbatim>\<open>ServiceA/main.go\<close> and \<^verbatim>\<open>ServiceB/main.go\<close>.
  The handlers are modelled as functions from what the outside world answers (the
  network, the environment variable, the library decoders) to the HTTP response they
  write, together with the list of spans they start and of HTTP requests they send.
  Tracing export, metrics and process lifecycle are not modelled.
\<close>

subsection \<open>Go's float64\<close>

text \<open>
  A float64 is a finite binary64 value (kept as the rational it denotes), an infinity or
  NaN. The two zeros are identified. \<open>round64\<close> is IEEE 754 rounding to nearest, ties
  to even, of an exact rational: the significand has 53 bits, the exponent of the last
  bit ranges over \<open>-1074 .. 971\<close>, and a rounded magnitude of \<open>2 ^ 1024\<close> or more
  overflows to an infinity.
\<close>

datatype float64 = Finite rat | PosInf | NegInf | NaN

definition pow2 :: "int \<Rightarrow> rat" where
  "pow2 k = (if 0 \<le> k then 2 ^ nat k else 1 / 2 ^ nat (- k))"

text \<open>\<open>ilog2 a\<close> is the integer part of the binary logarithm of a positive rational.\<close>

definition ilog2 :: "rat \<Rightarrow> int" where
  "ilog2 a = (if 1 \<le> a then int (floorlog 2 (nat \<lfloor>a\<rfloor>)) - 1
              else - int (floorlog 2 (nat (\<lceil>1 / a\<rceil> - 1))))"

definition roundHalfEven :: "rat \<Rightarrow> int" where
  "roundHalfEven q =
     (let f = \<lfloor>q\<rfloor>; d = q - of_int f
      in if d < 1 / 2 then f else if 1 / 2 < d then f + 1 else if even f then f else f + 1)"

definition round64 :: "rat \<Rightarrow> float64" where
  "round64 q =
     (if q = 0 then Finite 0
      else let a = \<bar>q\<bar>;
               e = max (ilog2 a - 52) (- 1074);
               m = roundHalfEven (a / pow2 e)
           in if 971 < e \<or> (e = 971 \<and> 2 ^ 53 \<le> m) then (if 0 < q then PosInf else NegInf)
              else Finite (if 0 < q then of_int m * pow2 e else - (of_int m * pow2 e)))"

text \<open>The operators \<^verbatim>\<open>*\<close> and \<^verbatim>\<open>+\<close> on float64, each rounded once.\<close>

fun fmul :: "float64 \<Rightarrow> float64 \<Rightarrow> float64" where
  "fmul (Finite x) (Finite y) = round64 (x * y)"
| "fmul NaN _ = NaN"
| "fmul _ NaN = NaN"
| "fmul (Finite x) PosInf = (if x = 0 then NaN else if 0 < x then PosInf else NegInf)"
| "fmul (Finite x) NegInf = (if x = 0 then NaN else if 0 < x then NegInf else PosInf)"
| "fmul PosInf (Finite y) = (if y = 0 then NaN else if 0 < y then PosInf else NegInf)"
| "fmul NegInf (Finite y) = (if y = 0 then NaN else if 0 < y then NegInf else PosInf)"
| "fmul PosInf PosInf = PosInf"
| "fmul PosInf NegInf = NegInf"
| "fmul NegInf PosInf = NegInf"
| "fmul NegInf NegInf = PosInf"

fun fadd :: "float64 \<Rightarrow> float64 \<Rightarrow> float64" where
  "fadd (Finite x) (Finite y) = round64 (x + y)"
| "fadd NaN _ = NaN"
| "fadd _ NaN = NaN"
| "fadd PosInf NegInf = NaN"
| "fadd NegInf PosInf = NaN"
| "fadd PosInf _ = PosInf"
| "fadd _ PosInf = PosInf"
| "fadd NegInf _ = NegInf"
| "fadd _ NegInf = NegInf"

text \<open>
  The Go specification lets a compiler fuse \<^verbatim>\<open>x*y + z\<close> into one operation that
  rounds once (the gc compiler does on arm64, ppc64le, s390x and riscv64, and on amd64
  from GOAMD64=v3). \<open>ffma\<close> is that fused operation; \<open>mulAdd fused\<close> is the Go
  expression \<^verbatim>\<open>x*y + z\<close> under either choice.
\<close>

definition ffma :: "float64 \<Rightarrow> float64 \<Rightarrow> float64 \<Rightarrow> float64" where
  "ffma x y z =
     (case (x, y) of
        (Finite a, Finite b) \<Rightarrow> (case z of Finite c \<Rightarrow> round64 (a * b + c) | _ \<Rightarrow> z)
      | _ \<Rightarrow> fadd (fmul x y) z)"

definition mulAdd :: "bool \<Rightarrow> float64 \<Rightarrow> float64 \<Rightarrow> float64 \<Rightarrow> float64" where
  "mulAdd fused x y z = (if fused then ffma x y z else fadd (fmul x y) z)"

text \<open>A decimal constant of the source, converted to float64.\<close>

definition const64 :: "rat \<Rightarrow> float64" where
  "const64 q = round64 q"

subsection \<open>Data model\<close>

text \<open>
  Field names are the source's; a name that a later struct uses again carries a suffix
  (\<open>Cep_req\<close>, \<open>City_cep\<close>, \<open>Latitude_w\<close>, \<open>Longitude_w\<close>, \<open>Time_u\<close>,
  \<open>Interval_u\<close>, \<open>Temperature2M_u\<close>).
\<close>

record CepRequest =
  Cep_req :: string

record Temperature =
  City :: string
  TempC :: float64
  TempF :: float64
  TempK :: float64

record CepAwesomeapiResponse =
  Cep :: string
  AddressType :: string
  AddressName :: string
  Address :: string
  State :: string
  District :: string
  Latitude :: string
  Longitude :: string
  City_cep :: string
  Ibge :: string
  Ddd :: string

record CurrentUnits =
  Time_u :: string
  Interval_u :: string
  Temperature2M_u :: string

record Current =
  Time :: string
  Interval :: int
  Temperature2M :: float64

record WeatherApiResponse =
  Latitude_w :: float64
  Longitude_w :: float64
  GenerationtimeMs :: float64
  UtcOffsetSeconds :: int
  Timezone :: string
  TimezoneAbbreviation :: string
  Elevation :: float64
  CurrentUnits :: CurrentUnits
  Current :: Current

text \<open>
  What a handler hands to \<^verbatim>\<open>json.NewEncoder(w).Encode\<close>: the map
  \<^verbatim>\<open>{"error": msg}\<close> or a \<open>Temperature\<close>; and the response it writes.
\<close>

datatype payload = ErrorBody string | TemperatureBody Temperature

record response =
  status :: int
  body :: payload

text \<open>
  The observable steps of a request: a span started by \<^verbatim>\<open>tracer.Start\<close> (each
  function of the source starts one under its own name) and an HTTP GET sent by
  \<^verbatim>\<open>client.Do\<close>.
\<close>

datatype event = SpanStart string | HttpGet string

text \<open>
  The outcome of building, sending and reading one GET: \<^verbatim>\<open>NewRequestWithContext\<close>
  fails (nothing is sent), \<^verbatim>\<open>client.Do\<close> fails, \<^verbatim>\<open>io.ReadAll\<close> fails, or a
  status code and a body arrive. The string of a failure is the library's error text.
\<close>

datatype http_result =
    NewRequestFailed string
  | DoFailed string
  | ReadAllFailed string
  | Response int string

text \<open>The errors ServiceB's adapters return.\<close>

datatype error =
    CepNotFound                 \<comment> \<open>\<^verbatim>\<open>cep not found\<close>\<close>
  | CepApiReturned int          \<comment> \<open>\<^verbatim>\<open>cep api returned %d\<close>\<close>
  | InvalidCoordinates string   \<comment> \<open>\<^verbatim>\<open>invalid coordinates: %w\<close>\<close>
  | WeatherApiReturned int      \<comment> \<open>\<^verbatim>\<open>weather api returned %d\<close>\<close>
  | LibraryError string         \<comment> \<open>an error of net/http, io or encoding/json, passed on\<close>

subsection \<open>The validation pattern\<close>

text \<open>
  \<^verbatim>\<open>regexp.MustCompile(`^\d{8}$`)\<close>, the same in both services. In Go's syntax
  \<^verbatim>\<open>\d\<close> is an ASCII digit and, without the multi-line flag, \<^verbatim>\<open>^\<close> and \<^verbatim>\<open>$\<close>
  match only at the two ends of the text. \<open>matchDigits n\<close> matches \<^verbatim>\<open>\d{n}$\<close> at
  the start of its argument.
\<close>

definition digit :: "char \<Rightarrow> bool" where
  "digit c = (c \<in> set ''0123456789'')"

fun matchDigits :: "nat \<Rightarrow> string \<Rightarrow> bool" where
  "matchDigits 0 s = (s = [])"
| "matchDigits (Suc n) [] = False"
| "matchDigits (Suc n) (c # s) = (digit c \<and> matchDigits n s)"

definition validCepRegex :: "string \<Rightarrow> bool" where
  "validCepRegex s = matchDigits 8 s"

subsection \<open>ServiceB\<close>

text \<open>
  What ServiceB's code takes from outside: the answer of the network to a GET of a URL,
  \<^verbatim>\<open>json.Unmarshal\<close> into the two upstream structs, \<^verbatim>\<open>strconv.ParseFloat(s, 64)\<close>
  (\<open>Inl\<close> is the error), and whether the compiler fused the multiplication and the
  addition of the Fahrenheit expression.
\<close>

record envB =
  httpGet :: "string \<Rightarrow> http_result"
  unmarshalCepAwesomeapiResponse :: "string \<Rightarrow> string + CepAwesomeapiResponse"
  unmarshalWeatherApiResponse :: "string \<Rightarrow> string + WeatherApiResponse"
  parseFloat :: "string \<Rightarrow> string + float64"
  fusedMulAdd :: bool

definition directoryURL :: "string \<Rightarrow> string" where
  "directoryURL cep = ''https://cep.awesomeapi.com.br/json/'' @ cep"

definition weatherURL :: "string \<Rightarrow> string \<Rightarrow> string" where
  "weatherURL latitude longitude =
     ''https://api.open-meteo.com/v1/forecast?latitude='' @ latitude
     @ ''&longitude='' @ longitude @ ''&current=temperature_2m''"

definition CepAwesomeapi :: "envB \<Rightarrow> string \<Rightarrow> event list \<times> (error + CepAwesomeapiResponse)" where
  "CepAwesomeapi env cep =
     (let url = directoryURL cep
      in case httpGet env url of
           NewRequestFailed e \<Rightarrow> ([SpanStart ''CepAwesomeapi''], Inl (LibraryError e))
         | DoFailed e \<Rightarrow> ([SpanStart ''CepAwesomeapi'', HttpGet url], Inl (LibraryError e))
         | ReadAllFailed e \<Rightarrow> ([SpanStart ''CepAwesomeapi'', HttpGet url], Inl (LibraryError e))
         | Response statusCode b \<Rightarrow>
             ([SpanStart ''CepAwesomeapi'', HttpGet url],
              if statusCode = 404 then Inl CepNotFound
              else if statusCode \<noteq> 200 then Inl (CepApiReturned statusCode)
              else case unmarshalCepAwesomeapiResponse env b of
                     Inl e \<Rightarrow> Inl (LibraryError e)
                   | Inr cepResponse \<Rightarrow>
                       if Cep cepResponse = [] then Inl CepNotFound else Inr cepResponse))"

definition WeatherApi :: "envB \<Rightarrow> string \<Rightarrow> string \<Rightarrow> event list \<times> (error + WeatherApiResponse)" where
  "WeatherApi env latitude longitude =
     (case parseFloat env latitude of
        Inl e \<Rightarrow> ([SpanStart ''WeatherApi''], Inl (InvalidCoordinates e))
      | Inr _ \<Rightarrow>
     (case parseFloat env longitude of
        Inl e \<Rightarrow> ([SpanStart ''WeatherApi''], Inl (InvalidCoordinates e))
      | Inr _ \<Rightarrow>
     (let url = weatherURL latitude longitude
      in case httpGet env url of
           NewRequestFailed e \<Rightarrow> ([SpanStart ''WeatherApi''], Inl (LibraryError e))
         | DoFailed e \<Rightarrow> ([SpanStart ''WeatherApi'', HttpGet url], Inl (LibraryError e))
         | ReadAllFailed e \<Rightarrow> ([SpanStart ''WeatherApi'', HttpGet url], Inl (LibraryError e))
         | Response statusCode b \<Rightarrow>
             ([SpanStart ''WeatherApi'', HttpGet url],
              if statusCode \<noteq> 200 then Inl (WeatherApiReturned statusCode)
              else case unmarshalWeatherApiResponse env b of
                     Inl e \<Rightarrow> Inl (LibraryError e)
                   | Inr weatherResponse \<Rightarrow> Inr weatherResponse))))"

definition invalidZipcode :: response where
  "invalidZipcode = \<lparr>status = 422, body = ErrorBody ''invalid zipcode''\<rparr>"

definition canNotFindZipcode :: response where
  "canNotFindZipcode = \<lparr>status = 404, body = ErrorBody ''can not find zipcode''\<rparr>"

text \<open>\<open>HandlerCep env cep\<close>: \<open>cep\<close> is the path parameter \<^verbatim>\<open>chi.URLParam(r, "cep")\<close>.\<close>

definition HandlerCep :: "envB \<Rightarrow> string \<Rightarrow> event list \<times> response" where
  "HandlerCep env cep =
     (if cep = [] \<or> \<not> validCepRegex cep then ([SpanStart ''HandlerCep''], invalidZipcode)
      else case CepAwesomeapi env cep of
             (evs1, Inl err) \<Rightarrow> (SpanStart ''HandlerCep'' # evs1, canNotFindZipcode)
           | (evs1, Inr cepResponse) \<Rightarrow>
               (case WeatherApi env (Latitude cepResponse) (Longitude cepResponse) of
                  (evs2, Inl err) \<Rightarrow> (SpanStart ''HandlerCep'' # evs1 @ evs2, canNotFindZipcode)
                | (evs2, Inr weatherResponse) \<Rightarrow>
                    (let tempC = Temperature2M (Current weatherResponse);
                         result = \<lparr>City = City_cep cepResponse,
                                   TempC = tempC,
                                   TempF = mulAdd (fusedMulAdd env) tempC (const64 (18 / 10)) (Finite 32),
                                   TempK = fadd tempC (const64 (27315 / 100))\<rparr>
                     in (SpanStart ''HandlerCep'' # evs1 @ evs2,
                         \<lparr>status = 200, body = TemperatureBody result\<rparr>))))"

subsection \<open>ServiceA\<close>

text \<open>
  What ServiceA's code takes from outside: \<^verbatim>\<open>os.Getenv("SERVICE_B_URL")\<close>, the answer
  of the network to its GET, \<^verbatim>\<open>json.NewDecoder(r.Body).Decode\<close> into a
  \<open>CepRequest\<close>, the \<^verbatim>\<open>Error\<close> field left by \<^verbatim>\<open>json.Unmarshal(body, &errResp)\<close>
  (whose error the source discards; empty when the field is absent), and
  \<^verbatim>\<open>json.Unmarshal\<close> into a \<open>Temperature\<close>.
\<close>

record envA =
  getenvServiceBURL :: string
  httpGetA :: "string \<Rightarrow> http_result"
  decodeCepRequest :: "string \<Rightarrow> string + CepRequest"
  unmarshalErrResp :: "string \<Rightarrow> string"
  unmarshalTemperature :: "string \<Rightarrow> string + Temperature"

definition serviceBURL :: "envA \<Rightarrow> string" where
  "serviceBURL env =
     (if getenvServiceBURL env = [] then ''http://localhost:8090'' else getenvServiceBURL env)"

text \<open>
  \<open>callServiceB\<close> returns \<open>Inl (statusCode, message)\<close> for the source's
  \<^verbatim>\<open>(nil, statusCode, err)\<close> and \<open>Inr temperature\<close> for
  \<^verbatim>\<open>(&temperature, http.StatusOK, nil)\<close>.
\<close>

definition callServiceB :: "envA \<Rightarrow> string \<Rightarrow> event list \<times> (int \<times> string + Temperature)" where
  "callServiceB env cep =
     (let url = serviceBURL env @ ''/'' @ cep
      in case httpGetA env url of
           NewRequestFailed e \<Rightarrow>
             ([SpanStart ''callServiceB''], Inl (500, ''failed to create request: '' @ e))
         | DoFailed e \<Rightarrow>
             ([SpanStart ''callServiceB'', HttpGet url], Inl (500, ''failed to call ServiceB: '' @ e))
         | ReadAllFailed e \<Rightarrow>
             ([SpanStart ''callServiceB'', HttpGet url],
              Inl (500, ''failed to read response body: '' @ e))
         | Response statusCode b \<Rightarrow>
             ([SpanStart ''callServiceB'', HttpGet url],
              if statusCode \<noteq> 200
              then (let errMsg = unmarshalErrResp env b
                    in Inl (statusCode, if errMsg = [] then b else errMsg))
              else case unmarshalTemperature env b of
                     Inl e \<Rightarrow> Inl (500, ''failed to parse response: '' @ e)
                   | Inr temperature \<Rightarrow> Inr temperature))"

text \<open>\<open>ValidateAndProcessCep env requestBody\<close>: the handler of \<^verbatim>\<open>POST /\<close>.\<close>

definition ValidateAndProcessCep :: "envA \<Rightarrow> string \<Rightarrow> event list \<times> response" where
  "ValidateAndProcessCep env requestBody =
     (case decodeCepRequest env requestBody of
        Inl e \<Rightarrow> ([SpanStart ''ValidateAndProcessCep''], invalidZipcode)
      | Inr data \<Rightarrow>
          if \<not> validCepRegex (Cep_req data)
          then ([SpanStart ''ValidateAndProcessCep''], invalidZipcode)
          else case callServiceB env (Cep_req data) of
                 (evs, Inl (statusCode, err)) \<Rightarrow>
                   (SpanStart ''ValidateAndProcessCep'' # evs,
                    \<lparr>status = statusCode, body = ErrorBody err\<rparr>)
               | (evs, Inr temperature) \<Rightarrow>
                   (SpanStart ''ValidateAndProcessCep'' # evs,
                    \<lparr>status = 200, body = TemperatureBody temperature\<rparr>))"

subsection \<open>The two services together\<close>

text \<open>
  The deployment of the README: ServiceA's GET of \<^verbatim>\<open>SERVICE_B_URL/cep\<close> is routed
  by chi's \<^verbatim>\<open>/{cep}\<close> to \<open>HandlerCep\<close>, and the network hands the status and the
  bytes ServiceB wrote to ServiceA. \<open>encode\<close> is what \<^verbatim>\<open>json.NewEncoder(w).Encode\<close>
  writes for a payload.
\<close>

definition serviceBAnswer :: "(payload \<Rightarrow> string) \<Rightarrow> envB \<Rightarrow> string \<Rightarrow> string \<Rightarrow> http_result" where
  "serviceBAnswer encode b base url =
     (let r = snd (HandlerCep b (drop (length base + 1) url))
      in Response (status r) (encode (body r)))"

definition endToEnd :: "(payload \<Rightarrow> string) \<Rightarrow> envA \<Rightarrow> envB \<Rightarrow> string \<Rightarrow> response" where
  "endToEnd encode a b requestBody =
     snd (ValidateAndProcessCep
            (a\<lparr>httpGetA := serviceBAnswer encode b (serviceBURL a)\<rparr>) requestBody)"

subsection \<open>The scenario of the README\<close>

text \<open>
  CEP 29902555, a directory answer with the city of the README (its accented letter is
  two bytes of UTF-8) at -20.31, -40.33, and a weather answer of 28.5 degrees Celsius.
  Table look-ups stand for the decoders and the encoder on the bodies of this scenario.
\<close>

definition vitoria :: string where
  "vitoria = ''Vit'' @ [CHR 0xC3, CHR 0xB3] @ ''ria''"

definition exampleCepBody :: string where
  \<open>exampleCepBody =
     ''{"cep":"29902555","lat":"-20.31","lng":"-40.33","city":"'' @ vitoria @ ''"}''\<close>

definition exampleCepResponse :: CepAwesomeapiResponse where
  "exampleCepResponse =
     \<lparr>Cep = ''29902555'', AddressType = [], AddressName = [], Address = [], State = [],
      District = [], Latitude = ''-20.31'', Longitude = ''-40.33'', City_cep = vitoria,
      Ibge = [], Ddd = []\<rparr>"

definition exampleWeatherBody :: string where
  \<open>exampleWeatherBody = ''{"current":{"temperature_2m":28.5}}''\<close>

definition exampleWeatherResponse :: WeatherApiResponse where
  "exampleWeatherResponse =
     \<lparr>Latitude_w = Finite 0, Longitude_w = Finite 0, GenerationtimeMs = Finite 0,
      UtcOffsetSeconds = 0, Timezone = [], TimezoneAbbreviation = [], Elevation = Finite 0,
      CurrentUnits = \<lparr>Time_u = [], Interval_u = [], Temperature2M_u = []\<rparr>,
      Current = \<lparr>Time = [], Interval = 0, Temperature2M = Finite (57 / 2)\<rparr>\<rparr>"

definition exampleEnvB :: envB where
  "exampleEnvB =
     \<lparr>httpGet = (\<lambda>url.
        if url = directoryURL ''29902555'' then Response 200 exampleCepBody
        else if url = weatherURL ''-20.31'' ''-40.33'' then Response 200 exampleWeatherBody
        else DoFailed ''no such host''),
      unmarshalCepAwesomeapiResponse = (\<lambda>b.
        if b = exampleCepBody then Inr exampleCepResponse
        else Inl ''unexpected end of JSON input''),
      unmarshalWeatherApiResponse = (\<lambda>b.
        if b = exampleWeatherBody then Inr exampleWeatherResponse
        else Inl ''unexpected end of JSON input''),
      parseFloat = (\<lambda>s.
        if s = ''-20.31'' then Inr (const64 (- 2031 / 100))
        else if s = ''-40.33'' then Inr (const64 (- 4033 / 100))
        else Inl ''invalid syntax''),
      fusedMulAdd = False\<rparr>"

text \<open>
  The result of the scenario on a build that does not fuse (\<open>TempF\<close> is the float64
  printed as 83.30000000000001), the bytes of the payloads, and ServiceA's side.
\<close>

definition exampleTemperature :: Temperature where
  "exampleTemperature =
     \<lparr>City = vitoria, TempC = Finite (57 / 2),
      TempF = Finite (5861716389999412 / 70368744177664),
      TempK = Finite (2653341460149043 / 8796093022208)\<rparr>"

definition exampleTemperatureBody :: string where
  \<open>exampleTemperatureBody =
     ''{"city":"'' @ vitoria
     @ ''","temp_C":28.5,"temp_F":83.30000000000001,"temp_K":301.65}'' @ [CHR 0x0A]\<close>

fun exampleEncode :: "payload \<Rightarrow> string" where
  \<open>exampleEncode (ErrorBody msg) = ''{"error":"'' @ msg @ ''"}'' @ [CHR 0x0A]\<close>
| \<open>exampleEncode (TemperatureBody t) =
     (if t = exampleTemperature then exampleTemperatureBody else [])\<close>

definition exampleEnvA :: "(string \<Rightarrow> http_result) \<Rightarrow> envA" where
  \<open>exampleEnvA net =
     \<lparr>getenvServiceBURL = ''http://serviceb:8090'',
      httpGetA = net,
      decodeCepRequest = (\<lambda>b.
        if b = ''{"cep":"29902555"}'' then Inr \<lparr>Cep_req = ''29902555''\<rparr>
        else if b = ''{"cep":"123"}'' then Inr \<lparr>Cep_req = ''123''\<rparr>
        else Inl ''unexpected end of JSON input''),
      unmarshalErrResp = (\<lambda>b.
        if b = exampleEncode (ErrorBody ''can not find zipcode'') then ''can not find zipcode''
        else if b = exampleEncode (ErrorBody ''invalid zipcode'') then ''invalid zipcode''
        else []),
      unmarshalTemperature = (\<lambda>b.
        if b = exampleTemperatureBody then Inr exampleTemperature
        else Inl ''unexpected end of JSON input'')\<rparr>\<close>

section \<open>Properties\<close>

subsection \<open>The rounding of float64\<close>

text \<open>
  \<open>roundHalfEven\<close> is within one half of its argument, \<open>ilog2\<close> brackets a positive
  rational between two consecutive powers of two, and a finite \<open>round64 q\<close> is within
  half a unit in the last place of \<open>q\<close>.
\<close>

lemma roundHalfEven_nearest: "\<bar>of_int (roundHalfEven q) - q\<bar> \<le> 1 / 2"
proof -
  have f: "of_int \<lfloor>q\<rfloor> \<le> q" "q < of_int \<lfloor>q\<rfloor> + 1"
    by linarith+
  show ?thesis
    unfolding roundHalfEven_def Let_def using f by (auto simp add: abs_le_iff)
qed

lemma pow2_nat: "pow2 (int n) = 2 ^ n"
  by (simp add: pow2_def)

lemma pow2_neg_nat: "pow2 (- int n) = 1 / 2 ^ n"
  by (cases n) (simp_all add: pow2_def nat_add_distrib)

lemma floorlog2_rat:
  assumes "0 < n" and "floorlog 2 n = Suc L"
  shows "(2::rat) ^ L \<le> of_nat n" and "(of_nat n :: rat) + 1 \<le> 2 ^ Suc L"
proof -
  have fl: "2 ^ (floorlog 2 n - 1) \<le> n" "n < 2 ^ floorlog 2 n"
    using floorlog_bounds [of n 2] assms(1) by simp_all
  have a: "2 ^ L \<le> n" using fl(1) assms(2) by simp
  have b: "Suc n \<le> 2 ^ Suc L" using fl(2) assms(2) by simp
  have "(of_nat (2 ^ L) :: rat) \<le> of_nat n"
    using a by (rule of_nat_mono)
  then show "(2::rat) ^ L \<le> of_nat n" by simp
  have "(of_nat (Suc n) :: rat) \<le> of_nat (2 ^ Suc L)"
    using b by (rule of_nat_mono)
  then show "(of_nat n :: rat) + 1 \<le> 2 ^ Suc L" by simp
qed

lemma ilog2_ge1:
  assumes "1 \<le> a"
  shows "pow2 (ilog2 a) \<le> a \<and> a < pow2 (ilog2 a + 1)"
proof -
  define n where "n = nat \<lfloor>a\<rfloor>"
  have fa: "of_int \<lfloor>a\<rfloor> \<le> a" "a < of_int \<lfloor>a\<rfloor> + 1"
    by linarith+
  have f1: "1 \<le> \<lfloor>a\<rfloor>" using assms by linarith
  then have n: "0 < n" by (simp add: n_def)
  have "of_int (int n) = (of_int \<lfloor>a\<rfloor> :: rat)" using f1 by (simp add: n_def)
  then have nr: "(of_nat n :: rat) = of_int \<lfloor>a\<rfloor>" by simp
  obtain L where L: "floorlog 2 n = Suc L"
    using n by (cases "floorlog 2 n") (simp_all add: floorlog_def)
  have i: "ilog2 a = int L"
    using assms by (simp add: ilog2_def n_def [symmetric] L)
  have p: "pow2 (int L) = 2 ^ L" "pow2 (int L + 1) = 2 ^ Suc L"
    using pow2_nat [of L] pow2_nat [of "Suc L"] by (simp_all add: add.commute)
  show ?thesis
    unfolding i p using floorlog2_rat [OF n L] fa nr by linarith
qed

lemma ilog2_lt1:
  assumes "0 < a" and "a < 1"
  shows "pow2 (ilog2 a) \<le> a \<and> a < pow2 (ilog2 a + 1)"
proof -
  define m where "m = \<lceil>1 / a\<rceil>"
  define n where "n = nat (m - 1)"
  have inv: "1 < 1 / a" using assms by simp
  have c: "of_int m - 1 < 1 / a" "1 / a \<le> of_int m"
    unfolding m_def by linarith+
  have "(1::rat) < of_int m" using inv c(2) by linarith
  then have m2: "2 \<le> m" by simp
  then have n: "0 < n" by (simp add: n_def)
  have "of_int (int n) = (of_int (m - 1) :: rat)" using m2 by (simp add: n_def)
  then have nr: "(of_nat n :: rat) = of_int m - 1" by simp
  obtain L where L: "floorlog 2 n = Suc L"
    using n by (cases "floorlog 2 n") (simp_all add: floorlog_def)
  have i: "ilog2 a = - int (Suc L)"
    using assms(2) by (simp add: ilog2_def m_def [symmetric] n_def [symmetric] L)
  have b1: "1 / a \<le> 2 ^ Suc L" and b2: "(2::rat) ^ L < 1 / a"
    using floorlog2_rat [OF n L] c nr by linarith+
  have p: "pow2 (- int (Suc L)) = 1 / 2 ^ Suc L"
    by (rule pow2_neg_nat)
  have "- int (Suc L) + 1 = - int L" by simp
  then have p': "pow2 (- int (Suc L) + 1) = 1 / 2 ^ L"
    by (simp only: pow2_neg_nat)
  have z: "(0::rat) < 2 ^ Suc L" "(0::rat) < 2 ^ L" by simp_all
  have "1 \<le> 2 ^ Suc L * a"
    using b1 assms(1) by (simp only: pos_divide_le_eq)
  then have r1: "1 / 2 ^ Suc L \<le> a"
    using z(1) by (simp only: pos_divide_le_eq mult.commute)
  have "2 ^ L * a < 1"
    using b2 assms(1) by (simp only: pos_less_divide_eq)
  then have r2: "a < 1 / 2 ^ L"
    using z(2) by (simp only: pos_less_divide_eq mult.commute)
  show ?thesis
    unfolding i p p' using r1 r2 by (rule conjI)
qed

lemma ilog2_bounds:
  assumes "0 < a"
  shows "pow2 (ilog2 a) \<le> a \<and> a < pow2 (ilog2 a + 1)"
  using assms ilog2_ge1 [of a] ilog2_lt1 [of a] by (cases "1 \<le> a") simp_all

lemma pow2_pos: "0 < pow2 k"
  by (simp add: pow2_def)

lemma round64_half_ulp:
  assumes "0 < q" and "round64 q = Finite r"
  shows "\<bar>r - q\<bar> \<le> pow2 (max (ilog2 q - 52) (- 1074)) / 2"
proof -
  define e where "e = max (ilog2 q - 52) (- 1074)"
  define m where "m = roundHalfEven (q / pow2 e)"
  have a: "\<bar>q\<bar> = q" using assms(1) by simp
  have r: "r = of_int m * pow2 e"
    using assms unfolding round64_def Let_def a e_def [symmetric] m_def [symmetric]
    by (simp split: if_splits)
  have n: "\<bar>of_int m - q / pow2 e\<bar> \<le> 1 / 2"
    unfolding m_def by (rule roundHalfEven_nearest)
  have "r - q = (of_int m - q / pow2 e) * pow2 e"
    using pow2_pos [of e] by (simp add: r field_simps)
  then have "\<bar>r - q\<bar> = \<bar>of_int m - q / pow2 e\<bar> * pow2 e"
    using pow2_pos [of e] by (simp add: abs_mult)
  also have "\<dots> \<le> 1 / 2 * pow2 e"
    using n pow2_pos [of e] by (simp only: mult_le_cancel_right_pos)
  finally show ?thesis
    by (simp add: e_def)
qed

subsection \<open>The validation pattern and the handlers, case by case\<close>

lemma matchDigits_iff: "matchDigits n s \<longleftrightarrow> length s = n \<and> (\<forall>c\<in>set s. digit c)"
proof (induction n arbitrary: s)
  case 0
  then show ?case by auto
next
  case (Suc n)
  then show ?case by (cases s) auto
qed

lemma validCepRegex_iff: "validCepRegex s \<longleftrightarrow> length s = 8 \<and> (\<forall>c\<in>set s. digit c)"
  by (simp add: validCepRegex_def matchDigits_iff)

lemma HandlerCep_invalid:
  "\<not> validCepRegex cep \<Longrightarrow> HandlerCep env cep = ([SpanStart ''HandlerCep''], invalidZipcode)"
  by (simp add: HandlerCep_def)

lemma HandlerCep_valid:
  "validCepRegex cep \<Longrightarrow> HandlerCep env cep =
     (case CepAwesomeapi env cep of
             (evs1, Inl err) \<Rightarrow> (SpanStart ''HandlerCep'' # evs1, canNotFindZipcode)
           | (evs1, Inr cepResponse) \<Rightarrow>
               (case WeatherApi env (Latitude cepResponse) (Longitude cepResponse) of
                  (evs2, Inl err) \<Rightarrow> (SpanStart ''HandlerCep'' # evs1 @ evs2, canNotFindZipcode)
                | (evs2, Inr weatherResponse) \<Rightarrow>
                    (SpanStart ''HandlerCep'' # evs1 @ evs2,
                         \<lparr>status = 200, body = TemperatureBody 
                             \<lparr>City = City_cep cepResponse,
                                   TempC = Temperature2M (Current weatherResponse),
                                   TempF = mulAdd (fusedMulAdd env) (Temperature2M (Current weatherResponse)) (const64 (18 / 10)) (Finite 32),
                                   TempK = fadd (Temperature2M (Current weatherResponse)) (const64 (27315 / 100))\<rparr>\<rparr>)))"
  by (auto simp add: HandlerCep_def validCepRegex_iff Let_def split: prod.splits sum.splits)


lemma ValidateAndProcessCep_invalid:
  "decodeCepRequest env rb = Inr d \<Longrightarrow> \<not> validCepRegex (Cep_req d) \<Longrightarrow>
   ValidateAndProcessCep env rb = ([SpanStart ''ValidateAndProcessCep''], invalidZipcode)"
  by (simp add: ValidateAndProcessCep_def)

lemma callServiceB_span: "SpanStart ''callServiceB'' \<in> set (fst (callServiceB env cep))"
  by (simp add: callServiceB_def Let_def split: http_result.splits)

lemma callServiceB_Response:
  assumes "httpGetA env (serviceBURL env @ ''/'' @ cep) = Response statusCode b"
  shows "snd (callServiceB env cep) =
           (if statusCode \<noteq> 200
            then Inl (statusCode, if unmarshalErrResp env b = [] then b else unmarshalErrResp env b)
            else case unmarshalTemperature env b of
                   Inl e \<Rightarrow> Inl (500, ''failed to parse response: '' @ e)
                 | Inr temperature \<Rightarrow> Inr temperature)"
  using assms by (simp add: callServiceB_def Let_def)

lemma ValidateAndProcessCep_valid:
  "decodeCepRequest env rb = Inr d \<Longrightarrow> validCepRegex (Cep_req d) \<Longrightarrow>
   ValidateAndProcessCep env rb =
     (SpanStart ''ValidateAndProcessCep'' # fst (callServiceB env (Cep_req d)),
      case snd (callServiceB env (Cep_req d)) of
        Inl (statusCode, err) \<Rightarrow> \<lparr>status = statusCode, body = ErrorBody err\<rparr>
      | Inr temperature \<Rightarrow> \<lparr>status = 200, body = TemperatureBody temperature\<rparr>)"
  by (auto simp add: ValidateAndProcessCep_def split: prod.splits sum.splits)

lemma CepAwesomeapi_events:
  "fst (CepAwesomeapi env cep) = [SpanStart ''CepAwesomeapi'']
   \<or> fst (CepAwesomeapi env cep) = [SpanStart ''CepAwesomeapi'', HttpGet (directoryURL cep)]"
  by (simp add: CepAwesomeapi_def Let_def split: http_result.splits)

lemma directoryURL_neq_weatherURL:
  "directoryURL cep \<noteq> weatherURL latitude longitude"
  "weatherURL latitude longitude \<noteq> directoryURL cep"
  by (simp_all add: directoryURL_def weatherURL_def)

lemma WeatherApi_fails_iff:
  "(\<exists>err. snd (WeatherApi env latitude longitude) = Inl err) \<longleftrightarrow>
     (\<exists>e. parseFloat env latitude = Inl e)
     \<or> (\<exists>e. parseFloat env longitude = Inl e)
     \<or> (\<exists>e. httpGet env (weatherURL latitude longitude) = NewRequestFailed e)
     \<or> (\<exists>e. httpGet env (weatherURL latitude longitude) = DoFailed e)
     \<or> (\<exists>e. httpGet env (weatherURL latitude longitude) = ReadAllFailed e)
     \<or> (\<exists>statusCode b. httpGet env (weatherURL latitude longitude) = Response statusCode b
                         \<and> statusCode \<noteq> 200)
     \<or> (\<exists>b e. httpGet env (weatherURL latitude longitude) = Response 200 b
               \<and> unmarshalWeatherApiResponse env b = Inl e)"
  by (auto simp add: WeatherApi_def Let_def split: sum.splits http_result.splits)

subsection \<open>The two services together\<close>

lemma serviceBURL_httpGetA_update: "serviceBURL (a\<lparr>httpGetA := f\<rparr>) = serviceBURL a"
  by (simp add: serviceBURL_def)

lemma endToEnd_valid:
  assumes "decodeCepRequest a requestBody = Inr \<lparr>Cep_req = cep\<rparr>"
    and "validCepRegex cep"
  shows "endToEnd encode a b requestBody =
           (let r = snd (HandlerCep b cep)
            in if status r \<noteq> 200
               then \<lparr>status = status r,
                     body = ErrorBody (if unmarshalErrResp a (encode (body r)) = []
                                       then encode (body r)
                                       else unmarshalErrResp a (encode (body r)))\<rparr>
               else case unmarshalTemperature a (encode (body r)) of
                      Inl e \<Rightarrow> \<lparr>status = 500, body = ErrorBody (''failed to parse response: '' @ e)\<rparr>
                    | Inr t \<Rightarrow> \<lparr>status = 200, body = TemperatureBody t\<rparr>)"
proof -
  let ?a = "a\<lparr>httpGetA := serviceBAnswer encode b (serviceBURL a)\<rparr>"
  have d: "decodeCepRequest ?a requestBody = Inr \<lparr>Cep_req = cep\<rparr>"
    using assms(1) by simp
  have g: "httpGetA ?a (serviceBURL ?a @ ''/'' @ cep)
             = Response (status (snd (HandlerCep b cep))) (encode (body (snd (HandlerCep b cep))))"
    by (simp add: serviceBURL_httpGetA_update serviceBAnswer_def Let_def)
  have u: "unmarshalErrResp ?a = unmarshalErrResp a" "unmarshalTemperature ?a = unmarshalTemperature a"
    by simp_all
  have v: "validCepRegex (Cep_req \<lparr>Cep_req = cep\<rparr>)"
    using assms(2) by simp
  show ?thesis
    unfolding endToEnd_def ValidateAndProcessCep_valid [OF d v]
    by (simp add: callServiceB_Response [OF g] u Let_def split: sum.splits)
qed


lemma endToEnd_not_found:
  assumes "decodeCepRequest a requestBody = Inr \<lparr>Cep_req = cep\<rparr>"
    and "validCepRegex cep"
    and "snd (HandlerCep b cep) = \<lparr>status = 404, body = ErrorBody ''can not find zipcode''\<rparr>"
    and "unmarshalErrResp a (encode (ErrorBody ''can not find zipcode'')) = ''can not find zipcode''"
  shows "endToEnd encode a b requestBody
           = \<lparr>status = 404, body = ErrorBody ''can not find zipcode''\<rparr>"
  by (simp add: endToEnd_valid [OF assms(1,2)] assms(3,4))

subsection \<open>Float64 arithmetic at 28.5 degrees\<close>

lemma tempF_285_unfused:
  "mulAdd False (Finite (57 / 2)) (const64 (18 / 10)) (Finite 32)
     = Finite (5861716389999412 / 2 ^ 46)"
  by code_simp

lemma tempF_285_fused:
  "mulAdd True (Finite (57 / 2)) (const64 (18 / 10)) (Finite 32) = const64 (833 / 10)"
  by code_simp

lemma tempK_285:
  "fadd (Finite (57 / 2)) (const64 (27315 / 100)) = const64 (30165 / 100)"
  by code_simp

lemma const64_285: "const64 (57 / 2) = Finite (57 / 2)"
  by code_simp

lemma const64_833: "const64 (833 / 10) = Finite (5861716389999411 / 2 ^ 46)"
  by code_simp

lemma const64_30165: "const64 (30165 / 100) = Finite (2653341460149043 / 2 ^ 43)"
  by code_simp

subsection \<open>The scenario of the README, evaluated\<close>

lemma example_valid: "validCepRegex ''29902555''"
  by (simp add: validCepRegex_iff digit_def)

lemma example_directory:
  "CepAwesomeapi exampleEnvB ''29902555''
     = ([SpanStart ''CepAwesomeapi'', HttpGet (directoryURL ''29902555'')], Inr exampleCepResponse)"
  by (simp add: CepAwesomeapi_def exampleEnvB_def exampleCepResponse_def)

lemma example_weather:
  "WeatherApi exampleEnvB ''-20.31'' ''-40.33''
     = ([SpanStart ''WeatherApi'', HttpGet (weatherURL ''-20.31'' ''-40.33'')],
        Inr exampleWeatherResponse)"
  by (simp add: WeatherApi_def exampleEnvB_def directoryURL_neq_weatherURL)

lemma example_handler:
  "snd (HandlerCep exampleEnvB ''29902555'')
     = \<lparr>status = 200, body = TemperatureBody exampleTemperature\<rparr>"
proof -
  have f: "fusedMulAdd exampleEnvB = False"
    by (simp add: exampleEnvB_def)
  have l: "Latitude exampleCepResponse = ''-20.31''" "Longitude exampleCepResponse = ''-40.33''"
     "City_cep exampleCepResponse = vitoria"
    by (simp_all add: exampleCepResponse_def)
  have t: "Temperature2M (Current exampleWeatherResponse) = Finite (57 / 2)"
    by (simp add: exampleWeatherResponse_def)
  show ?thesis
    using tempF_285_unfused tempK_285 const64_30165
    by (simp add: HandlerCep_valid [OF example_valid] example_directory l example_weather t f
        exampleTemperature_def)
qed


lemma example_decode:
  \<open>decodeCepRequest (exampleEnvA net) ''{"cep":"29902555"}'' = Inr \<lparr>Cep_req = ''29902555''\<rparr>\<close>
  by (simp add: exampleEnvA_def)


section \<open>The claims\<close>

subsection \<open>C1: the three temperature fields come from one reading\<close>



subsection \<open>C2: validation of the CEP at both stages\<close>

text \<open>
  Claim C2. The pattern accepts exactly the strings of eight ASCII digits. On any other
  string each stage answers 422 with the error \<^verbatim>\<open>invalid zipcode\<close> and does nothing
  beyond starting its own span: no request is sent and no adapter is entered. On a
  string that the pattern accepts ServiceB goes on to the directory adapter and ServiceA
  goes on to \<open>callServiceB\<close>.
\<close>

theorem C2_validation_eight_digits:
  "(validCepRegex s \<longleftrightarrow> length s = 8 \<and> (\<forall>c\<in>set s. c \<in> set ''0123456789''))
   \<and> (\<not> validCepRegex s \<longrightarrow>
        HandlerCep envb s
          = ([SpanStart ''HandlerCep''], \<lparr>status = 422, body = ErrorBody ''invalid zipcode''\<rparr>))
   \<and> (\<not> validCepRegex s \<longrightarrow> decodeCepRequest enva rb = Inr \<lparr>Cep_req = s\<rparr> \<longrightarrow>
        ValidateAndProcessCep enva rb
          = ([SpanStart ''ValidateAndProcessCep''],
             \<lparr>status = 422, body = ErrorBody ''invalid zipcode''\<rparr>))
   \<and> (validCepRegex s \<longrightarrow>
        SpanStart ''CepAwesomeapi'' \<in> set (fst (HandlerCep envb s)))
   \<and> (validCepRegex s \<longrightarrow> decodeCepRequest enva rb = Inr \<lparr>Cep_req = s\<rparr> \<longrightarrow>
        SpanStart ''callServiceB'' \<in> set (fst (ValidateAndProcessCep enva rb)))"
proof (intro conjI impI)
  show "validCepRegex s \<longleftrightarrow> length s = 8 \<and> (\<forall>c\<in>set s. c \<in> set ''0123456789'')"
    by (simp only: validCepRegex_iff digit_def)
next
  assume "\<not> validCepRegex s"
  then show "HandlerCep envb s
          = ([SpanStart ''HandlerCep''], \<lparr>status = 422, body = ErrorBody ''invalid zipcode''\<rparr>)"
    by (simp add: HandlerCep_invalid invalidZipcode_def)
next
  assume "\<not> validCepRegex s" "decodeCepRequest enva rb = Inr \<lparr>Cep_req = s\<rparr>"
  then show "ValidateAndProcessCep enva rb
          = ([SpanStart ''ValidateAndProcessCep''],
             \<lparr>status = 422, body = ErrorBody ''invalid zipcode''\<rparr>)"
    by (simp add: ValidateAndProcessCep_invalid invalidZipcode_def)
next
  assume "validCepRegex s"
  then show "SpanStart ''CepAwesomeapi'' \<in> set (fst (HandlerCep envb s))"
    by (auto simp add: HandlerCep_valid CepAwesomeapi_def Let_def split: prod.splits sum.splits http_result.splits)
next
  assume "validCepRegex s" "decodeCepRequest enva rb = Inr \<lparr>Cep_req = s\<rparr>"
  then show "SpanStart ''callServiceB'' \<in> set (fst (ValidateAndProcessCep enva rb))"
    by (simp add: ValidateAndProcessCep_valid callServiceB_span)
qed

text \<open>
  C2 at the CEP \<^verbatim>\<open>123\<close>, which is refused, and at \<^verbatim>\<open>29902555\<close>, which is accepted.
\<close>

theorem C2_validation_witness:
  \<open>\<not> validCepRegex ''123''
   \<and> decodeCepRequest (exampleEnvA (\<lambda>url. DoFailed ''connection refused'')) ''{"cep":"123"}''
       = Inr \<lparr>Cep_req = ''123''\<rparr>
   \<and> HandlerCep exampleEnvB ''123''
       = ([SpanStart ''HandlerCep''], \<lparr>status = 422, body = ErrorBody ''invalid zipcode''\<rparr>)
   \<and> ValidateAndProcessCep (exampleEnvA (\<lambda>url. DoFailed ''connection refused'')) ''{"cep":"123"}''
       = ([SpanStart ''ValidateAndProcessCep''],
          \<lparr>status = 422, body = ErrorBody ''invalid zipcode''\<rparr>)
   \<and> validCepRegex ''29902555''
   \<and> decodeCepRequest (exampleEnvA (\<lambda>url. DoFailed ''connection refused''))
         ''{"cep":"29902555"}'' = Inr \<lparr>Cep_req = ''29902555''\<rparr>
   \<and> SpanStart ''CepAwesomeapi'' \<in> set (fst (HandlerCep exampleEnvB ''29902555''))
   \<and> SpanStart ''callServiceB''
        \<in> set (fst (ValidateAndProcessCep (exampleEnvA (\<lambda>url. DoFailed ''connection refused''))
                       ''{"cep":"29902555"}''))\<close>
proof -
  have inv: "\<not> validCepRegex ''123''"
    by (simp add: validCepRegex_iff)
  have val: "validCepRegex ''29902555''"
    by (simp add: validCepRegex_iff digit_def)
  have d1: \<open>decodeCepRequest (exampleEnvA (\<lambda>url. DoFailed ''connection refused'')) ''{"cep":"123"}''
       = Inr \<lparr>Cep_req = ''123''\<rparr>\<close>
    by (simp add: exampleEnvA_def)
  have d2: \<open>decodeCepRequest (exampleEnvA (\<lambda>url. DoFailed ''connection refused''))
         ''{"cep":"29902555"}'' = Inr \<lparr>Cep_req = ''29902555''\<rparr>\<close>
    by (simp add: exampleEnvA_def)
  show ?thesis
    using C2_validation_eight_digits [of "''123''" exampleEnvB "exampleEnvA (\<lambda>url. DoFailed ''connection refused'')"
                 \<open>''{"cep":"123"}''\<close>]
          C2_validation_eight_digits [of "''29902555''" exampleEnvB "exampleEnvA (\<lambda>url. DoFailed ''connection refused'')"
                 \<open>''{"cep":"29902555"}''\<close>]
          inv val d1 d2
    by simp
qed

subsection \<open>C3: a failed directory lookup\<close>

text \<open>
  Claim C3. For a valid CEP, when \<open>CepAwesomeapi\<close> returns an error of any kind,
  \<open>HandlerCep\<close> answers 404 with the error \<^verbatim>\<open>can not find zipcode\<close>, and
  \<open>WeatherApi\<close> is not entered: its span is not started and no GET of a weather URL is
  sent.
\<close>

theorem C3_directory_failure_is_404:
  assumes "validCepRegex cep"
    and "snd (CepAwesomeapi env cep) = Inl err"
  shows "snd (HandlerCep env cep)
           = \<lparr>status = 404, body = ErrorBody ''can not find zipcode''\<rparr>
         \<and> SpanStart ''WeatherApi'' \<notin> set (fst (HandlerCep env cep))
         \<and> (\<forall>latitude longitude.
               HttpGet (weatherURL latitude longitude) \<notin> set (fst (HandlerCep env cep)))"
proof -
  obtain evs1 where c: "CepAwesomeapi env cep = (evs1, Inl err)"
    using assms(2) by (cases "CepAwesomeapi env cep") simp
  then have h: "HandlerCep env cep = (SpanStart ''HandlerCep'' # evs1, canNotFindZipcode)"
    using assms(1) by (simp add: HandlerCep_valid)
  have e: "evs1 = [SpanStart ''CepAwesomeapi'']
           \<or> evs1 = [SpanStart ''CepAwesomeapi'', HttpGet (directoryURL cep)]"
    using CepAwesomeapi_events [of env cep] c by simp
  show ?thesis
    using e by (auto simp add: h canNotFindZipcode_def directoryURL_neq_weatherURL)
qed

text \<open>
  C3 where the directory answers 404.
\<close>

theorem C3_directory_failure_witness:
  "validCepRegex ''29902555''
   \<and> snd (CepAwesomeapi (exampleEnvB\<lparr>httpGet := \<lambda>url. Response 404 []\<rparr>) ''29902555'')
       = Inl CepNotFound
   \<and> snd (HandlerCep (exampleEnvB\<lparr>httpGet := \<lambda>url. Response 404 []\<rparr>) ''29902555'')
       = \<lparr>status = 404, body = ErrorBody ''can not find zipcode''\<rparr>
   \<and> SpanStart ''WeatherApi''
       \<notin> set (fst (HandlerCep (exampleEnvB\<lparr>httpGet := \<lambda>url. Response 404 []\<rparr>) ''29902555''))"
proof -
  have a: "snd (CepAwesomeapi (exampleEnvB\<lparr>httpGet := \<lambda>url. Response 404 []\<rparr>) ''29902555'')
       = Inl CepNotFound"
    by (simp add: CepAwesomeapi_def)
  show ?thesis
    using C3_directory_failure_is_404 [OF example_valid a] example_valid a by simp
qed

subsection \<open>C4: a failed weather lookup\<close>

text \<open>
  Claim C4. For a valid CEP whose directory lookup succeeded, when the weather lookup
  fails for any of its reasons (a coordinate that does not parse, a request that cannot
  be built, sent or read, a status other than 200, a body that does not decode),
  \<open>HandlerCep\<close> answers 404 with the error \<^verbatim>\<open>can not find zipcode\<close>; and so does
  ServiceA in front of it, whenever it decodes the error field that ServiceB encoded.
\<close>

theorem C4_weather_failure_is_404:
  assumes "validCepRegex cep"
    and "snd (CepAwesomeapi env cep) = Inr c"
    and "(\<exists>e. parseFloat env (Latitude c) = Inl e)
         \<or> (\<exists>e. parseFloat env (Longitude c) = Inl e)
         \<or> (\<exists>e. httpGet env (weatherURL (Latitude c) (Longitude c)) = NewRequestFailed e)
         \<or> (\<exists>e. httpGet env (weatherURL (Latitude c) (Longitude c)) = DoFailed e)
         \<or> (\<exists>e. httpGet env (weatherURL (Latitude c) (Longitude c)) = ReadAllFailed e)
         \<or> (\<exists>statusCode b. httpGet env (weatherURL (Latitude c) (Longitude c)) = Response statusCode b
                             \<and> statusCode \<noteq> 200)
         \<or> (\<exists>b e. httpGet env (weatherURL (Latitude c) (Longitude c)) = Response 200 b
                   \<and> unmarshalWeatherApiResponse env b = Inl e)"
  shows "snd (HandlerCep env cep) = \<lparr>status = 404, body = ErrorBody ''can not find zipcode''\<rparr>
         \<and> (\<forall>encode a requestBody.
               decodeCepRequest a requestBody = Inr \<lparr>Cep_req = cep\<rparr> \<longrightarrow>
               unmarshalErrResp a (encode (ErrorBody ''can not find zipcode''))
                 = ''can not find zipcode'' \<longrightarrow>
               endToEnd encode a env requestBody
                 = \<lparr>status = 404, body = ErrorBody ''can not find zipcode''\<rparr>)"
proof -
  obtain err where w: "snd (WeatherApi env (Latitude c) (Longitude c)) = Inl err"
    using assms(3) WeatherApi_fails_iff [of env "Latitude c" "Longitude c"] by blast
  have h: "snd (HandlerCep env cep) = \<lparr>status = 404, body = ErrorBody ''can not find zipcode''\<rparr>"
    using assms(2) w
    by (cases "CepAwesomeapi env cep"; cases "WeatherApi env (Latitude c) (Longitude c)")
       (simp add: HandlerCep_valid [OF assms(1)] canNotFindZipcode_def)
  show ?thesis
    using h endToEnd_not_found [OF _ assms(1) h] by blast
qed

text \<open>
  C4 where the directory answers the scenario's body and the weather API answers 503.
\<close>

theorem C4_weather_failure_witness:
  \<open>validCepRegex ''29902555''
   \<and> snd (CepAwesomeapi
            (exampleEnvB\<lparr>httpGet := \<lambda>url. if url = directoryURL ''29902555''
                                          then Response 200 exampleCepBody else Response 503 []\<rparr>)
            ''29902555'') = Inr exampleCepResponse
   \<and> snd (HandlerCep
            (exampleEnvB\<lparr>httpGet := \<lambda>url. if url = directoryURL ''29902555''
                                          then Response 200 exampleCepBody else Response 503 []\<rparr>)
            ''29902555'')
       = \<lparr>status = 404, body = ErrorBody ''can not find zipcode''\<rparr>
   \<and> endToEnd exampleEncode (exampleEnvA (\<lambda>url. DoFailed []))
         (exampleEnvB\<lparr>httpGet := \<lambda>url. if url = directoryURL ''29902555''
                                       then Response 200 exampleCepBody else Response 503 []\<rparr>)
         ''{"cep":"29902555"}''
       = \<lparr>status = 404, body = ErrorBody ''can not find zipcode''\<rparr>\<close>
proof -
  let ?b = "exampleEnvB\<lparr>httpGet := \<lambda>url. if url = directoryURL ''29902555''
                                          then Response 200 exampleCepBody else Response 503 []\<rparr>"
  let ?a = "exampleEnvA (\<lambda>url. DoFailed [])"
  have c: "snd (CepAwesomeapi ?b ''29902555'') = Inr exampleCepResponse"
    by (simp add: CepAwesomeapi_def exampleEnvB_def exampleCepResponse_def)
  have g: "httpGet ?b (weatherURL (Latitude exampleCepResponse) (Longitude exampleCepResponse))
             = Response 503 []"
    by (simp add: directoryURL_neq_weatherURL)
  have r: "(\<exists>e. parseFloat ?b (Latitude exampleCepResponse) = Inl e)
         \<or> (\<exists>e. parseFloat ?b (Longitude exampleCepResponse) = Inl e)
         \<or> (\<exists>e. httpGet ?b (weatherURL (Latitude exampleCepResponse) (Longitude exampleCepResponse))
                  = NewRequestFailed e)
         \<or> (\<exists>e. httpGet ?b (weatherURL (Latitude exampleCepResponse) (Longitude exampleCepResponse))
                  = DoFailed e)
         \<or> (\<exists>e. httpGet ?b (weatherURL (Latitude exampleCepResponse) (Longitude exampleCepResponse))
                  = ReadAllFailed e)
         \<or> (\<exists>statusCode b.
                httpGet ?b (weatherURL (Latitude exampleCepResponse) (Longitude exampleCepResponse))
                  = Response statusCode b \<and> statusCode \<noteq> 200)
         \<or> (\<exists>b e. httpGet ?b (weatherURL (Latitude exampleCepResponse) (Longitude exampleCepResponse))
                  = Response 200 b \<and> unmarshalWeatherApiResponse ?b b = Inl e)"
    using g by simp
  have d: \<open>decodeCepRequest ?a ''{"cep":"29902555"}'' = Inr \<lparr>Cep_req = ''29902555''\<rparr>\<close>
    by (simp add: exampleEnvA_def)
  have u: "unmarshalErrResp ?a (exampleEncode (ErrorBody ''can not find zipcode''))
             = ''can not find zipcode''"
    by (simp add: exampleEnvA_def)
  show ?thesis
    using C4_weather_failure_is_404 [OF example_valid c r] example_valid c d u by blast
qed

subsection \<open>C5: a 200 from the directory with an empty CEP echo\<close>

text \<open>
  Claim C5. When the directory API answers 200 and the decoded body has an empty
  \<open>Cep\<close>, \<open>CepAwesomeapi\<close> returns the error \<^verbatim>\<open>cep not found\<close>; for a valid CEP
  \<open>HandlerCep\<close> then answers 404 with the error \<^verbatim>\<open>can not find zipcode\<close>, and so
  does ServiceA in front of it, whenever it decodes the error field that ServiceB
  encoded.
\<close>

theorem C5_empty_cep_echo_not_found:
  assumes "httpGet env (directoryURL cep) = Response 200 b"
    and "unmarshalCepAwesomeapiResponse env b = Inr c"
    and "Cep c = []"
  shows "snd (CepAwesomeapi env cep) = Inl CepNotFound
         \<and> (validCepRegex cep \<longrightarrow>
              snd (HandlerCep env cep) = \<lparr>status = 404, body = ErrorBody ''can not find zipcode''\<rparr>
              \<and> (\<forall>encode a requestBody.
                    decodeCepRequest a requestBody = Inr \<lparr>Cep_req = cep\<rparr> \<longrightarrow>
                    unmarshalErrResp a (encode (ErrorBody ''can not find zipcode''))
                      = ''can not find zipcode'' \<longrightarrow>
                    endToEnd encode a env requestBody
                      = \<lparr>status = 404, body = ErrorBody ''can not find zipcode''\<rparr>))"
proof -
  have n: "snd (CepAwesomeapi env cep) = Inl CepNotFound"
    using assms by (simp add: CepAwesomeapi_def)
  have h: "snd (HandlerCep env cep) = \<lparr>status = 404, body = ErrorBody ''can not find zipcode''\<rparr>"
    if "validCepRegex cep"
    using n by (cases "CepAwesomeapi env cep") (simp add: HandlerCep_valid [OF that] canNotFindZipcode_def)
  show ?thesis
    using n h endToEnd_not_found [OF _ _ h] by blast
qed

text \<open>
  C5 at the CEP \<^verbatim>\<open>99999999\<close> with a directory body that decodes to an empty
  \<open>Cep\<close>.
\<close>

theorem C5_empty_cep_echo_witness:
  \<open>httpGet (exampleEnvB\<lparr>httpGet := \<lambda>url. Response 200 ''{}'',
                         unmarshalCepAwesomeapiResponse :=
                           \<lambda>b. Inr (exampleCepResponse\<lparr>Cep := [], City_cep := []\<rparr>)\<rparr>)
       (directoryURL ''99999999'') = Response 200 ''{}''
   \<and> validCepRegex ''99999999''
   \<and> snd (CepAwesomeapi
            (exampleEnvB\<lparr>httpGet := \<lambda>url. Response 200 ''{}'',
                          unmarshalCepAwesomeapiResponse :=
                            \<lambda>b. Inr (exampleCepResponse\<lparr>Cep := [], City_cep := []\<rparr>)\<rparr>)
            ''99999999'') = Inl CepNotFound
   \<and> snd (HandlerCep
            (exampleEnvB\<lparr>httpGet := \<lambda>url. Response 200 ''{}'',
                          unmarshalCepAwesomeapiResponse :=
                            \<lambda>b. Inr (exampleCepResponse\<lparr>Cep := [], City_cep := []\<rparr>)\<rparr>)
            ''99999999'')
       = \<lparr>status = 404, body = ErrorBody ''can not find zipcode''\<rparr>\<close>
proof -
  let ?b = "exampleEnvB\<lparr>httpGet := \<lambda>url. Response 200 ''{}'',
                          unmarshalCepAwesomeapiResponse :=
                            \<lambda>b. Inr (exampleCepResponse\<lparr>Cep := [], City_cep := []\<rparr>)\<rparr>"
  have g: "httpGet ?b (directoryURL ''99999999'') = Response 200 ''{}''"
    by simp
  have u: "unmarshalCepAwesomeapiResponse ?b ''{}''
             = Inr (exampleCepResponse\<lparr>Cep := [], City_cep := []\<rparr>)"
    by simp
  have e: "Cep (exampleCepResponse\<lparr>Cep := [], City_cep := []\<rparr>) = []"
    by simp
  have v: "validCepRegex ''99999999''"
    by (simp add: validCepRegex_iff digit_def)
  show ?thesis
    using C5_empty_cep_echo_not_found [OF g u e] g v by blast
qed

subsection \<open>C6: the gateway relays a 200\<close>

text \<open>
  Claim C6. When ServiceB's answer to the gateway's GET has status 200 and its body
  decodes to a \<open>Temperature\<close>, the gateway answers 200 with that \<open>Temperature\<close>. With
  \<open>HandlerCep\<close> behind the GET, answering 200 with a \<open>Temperature\<close> that decodes
  back from its encoding, the client receives the status and the payload that
  \<open>HandlerCep\<close> produced.
\<close>

theorem C6_gateway_relays_temperature:
  assumes "decodeCepRequest env requestBody = Inr \<lparr>Cep_req = cep\<rparr>"
    and "validCepRegex cep"
    and "httpGetA env (serviceBURL env @ ''/'' @ cep) = Response 200 b"
    and "unmarshalTemperature env b = Inr t"
  shows "snd (ValidateAndProcessCep env requestBody) = \<lparr>status = 200, body = TemperatureBody t\<rparr>
         \<and> (\<forall>encode envb t0.
               snd (HandlerCep envb cep) = \<lparr>status = 200, body = TemperatureBody t0\<rparr> \<longrightarrow>
               unmarshalTemperature env (encode (TemperatureBody t0)) = Inr t0 \<longrightarrow>
               endToEnd encode env envb requestBody = snd (HandlerCep envb cep))"
proof -
  have g: "snd (ValidateAndProcessCep env requestBody)
             = \<lparr>status = 200, body = TemperatureBody t\<rparr>"
    using assms by (simp add: ValidateAndProcessCep_valid callServiceB_Response)
  have e: "endToEnd encode env envb requestBody = snd (HandlerCep envb cep)"
    if "snd (HandlerCep envb cep) = \<lparr>status = 200, body = TemperatureBody t0\<rparr>"
      and "unmarshalTemperature env (encode (TemperatureBody t0)) = Inr t0"
    for encode envb t0
    using that by (simp add: endToEnd_valid [OF assms(1,2)])
  show ?thesis
    using g e by blast
qed

text \<open>
  C6 at the scenario of the README.
\<close>

theorem C6_gateway_relays_witness:
  \<open>decodeCepRequest (exampleEnvA (\<lambda>url. Response 200 exampleTemperatureBody))
       ''{"cep":"29902555"}'' = Inr \<lparr>Cep_req = ''29902555''\<rparr>
   \<and> validCepRegex ''29902555''
   \<and> unmarshalTemperature (exampleEnvA (\<lambda>url. Response 200 exampleTemperatureBody))
        exampleTemperatureBody = Inr exampleTemperature
   \<and> snd (ValidateAndProcessCep (exampleEnvA (\<lambda>url. Response 200 exampleTemperatureBody))
            ''{"cep":"29902555"}'')
       = \<lparr>status = 200, body = TemperatureBody exampleTemperature\<rparr>
   \<and> endToEnd exampleEncode (exampleEnvA (\<lambda>url. Response 200 exampleTemperatureBody))
         exampleEnvB ''{"cep":"29902555"}''
       = snd (HandlerCep exampleEnvB ''29902555'')\<close>
proof -
  let ?a = "exampleEnvA (\<lambda>url. Response 200 exampleTemperatureBody)"
  have g: "httpGetA ?a (serviceBURL ?a @ ''/'' @ ''29902555'') = Response 200 exampleTemperatureBody"
    by (simp add: exampleEnvA_def)
  have u: "unmarshalTemperature ?a exampleTemperatureBody = Inr exampleTemperature"
    by (simp add: exampleEnvA_def)
  have r: "unmarshalTemperature ?a (exampleEncode (TemperatureBody exampleTemperature))
             = Inr exampleTemperature"
    by (simp add: exampleEnvA_def)
  show ?thesis
    using C6_gateway_relays_temperature [OF example_decode example_valid g u] example_decode [of "\<lambda>url. Response 200 exampleTemperatureBody"]
          example_valid u example_handler r
    by blast
qed

subsection \<open>C7: the gateway relays a status other than 200\<close>

text \<open>
  Claim C7. When ServiceB's answer to the gateway's GET has a status other than 200, the
  gateway answers with that status and with the error message taken from the
  \<^verbatim>\<open>error\<close> field of the body when that field decodes to a non-empty string, and the
  raw body otherwise.
\<close>

theorem C7_gateway_relays_error:
  assumes "decodeCepRequest env requestBody = Inr \<lparr>Cep_req = cep\<rparr>"
    and "validCepRegex cep"
    and "httpGetA env (serviceBURL env @ ''/'' @ cep) = Response statusCode b"
    and "statusCode \<noteq> 200"
  shows "snd (ValidateAndProcessCep env requestBody)
           = \<lparr>status = statusCode,
              body = ErrorBody (if unmarshalErrResp env b \<noteq> [] then unmarshalErrResp env b else b)\<rparr>"
  using assms by (simp add: ValidateAndProcessCep_valid callServiceB_def Let_def)

text \<open>
  C7 at a 404 whose body carries an \<^verbatim>\<open>error\<close> field, and at a 503 whose body is
  plain text.
\<close>

theorem C7_gateway_relays_error_witness:
  \<open>decodeCepRequest
       (exampleEnvA (\<lambda>url. Response 404 (exampleEncode (ErrorBody ''can not find zipcode''))))
       ''{"cep":"29902555"}'' = Inr \<lparr>Cep_req = ''29902555''\<rparr>
   \<and> validCepRegex ''29902555''
   \<and> snd (ValidateAndProcessCep
            (exampleEnvA (\<lambda>url. Response 404 (exampleEncode (ErrorBody ''can not find zipcode''))))
            ''{"cep":"29902555"}'')
       = \<lparr>status = 404, body = ErrorBody ''can not find zipcode''\<rparr>
   \<and> snd (ValidateAndProcessCep
            (exampleEnvA (\<lambda>url. Response 503 ''upstream connect error''))
            ''{"cep":"29902555"}'')
       = \<lparr>status = 503, body = ErrorBody ''upstream connect error''\<rparr>\<close>
proof -
  let ?a = "exampleEnvA (\<lambda>url. Response 404 (exampleEncode (ErrorBody ''can not find zipcode'')))"
  let ?b = "exampleEnvA (\<lambda>url. Response 503 ''upstream connect error'')"
  have d: \<open>decodeCepRequest ?a ''{"cep":"29902555"}'' = Inr \<lparr>Cep_req = ''29902555''\<rparr>\<close>
          \<open>decodeCepRequest ?b ''{"cep":"29902555"}'' = Inr \<lparr>Cep_req = ''29902555''\<rparr>\<close>
    by (simp_all add: exampleEnvA_def)
  have g: "httpGetA ?a (serviceBURL ?a @ ''/'' @ ''29902555'')
             = Response 404 (exampleEncode (ErrorBody ''can not find zipcode''))"
          "httpGetA ?b (serviceBURL ?b @ ''/'' @ ''29902555'')
             = Response 503 ''upstream connect error''"
    by (simp_all add: exampleEnvA_def)
  have u: "unmarshalErrResp ?a (exampleEncode (ErrorBody ''can not find zipcode''))
             = ''can not find zipcode''"
          "unmarshalErrResp ?b ''upstream connect error'' = []"
    by (simp_all add: exampleEnvA_def)
  show ?thesis
    using C7_gateway_relays_error [OF d(1) example_valid g(1)] C7_gateway_relays_error [OF d(2) example_valid g(2)] d(1) example_valid u
    by simp
qed

subsection \<open>C8: coordinates that do not parse\<close>



subsection \<open>C9: the scenario with a reading of 28.5 degrees\<close>

text \<open>
  Claim C9 says that with the city of the scenario, coordinates that parse and a reading
  of 28.5 the answer carries \<open>temp_F = 83.3\<close>. On a build that rounds the product and
  the sum separately it does not: the product \<open>28.5 * 1.8\<close> rounds up to the float64
  above 51.3, and adding 32 lands on a tie that rounds to the float64 above 83.3, printed
  as 83.30000000000001.
\<close>

theorem C9_scenario_not_83_3:
  "validCepRegex ''29902555''
   \<and> snd (CepAwesomeapi exampleEnvB ''29902555'') = Inr exampleCepResponse
   \<and> City_cep exampleCepResponse = vitoria
   \<and> snd (WeatherApi exampleEnvB (Latitude exampleCepResponse) (Longitude exampleCepResponse))
       = Inr exampleWeatherResponse
   \<and> Temperature2M (Current exampleWeatherResponse) = Finite (57 / 2)
   \<and> snd (HandlerCep exampleEnvB ''29902555'')
       \<noteq> \<lparr>status = 200,
           body = TemperatureBody \<lparr>City = vitoria, TempC = Finite (57 / 2),
                                   TempF = const64 (833 / 10),
                                   TempK = const64 (30165 / 100)\<rparr>\<rparr>"
proof -
  have w: "snd (WeatherApi exampleEnvB (Latitude exampleCepResponse)
                  (Longitude exampleCepResponse)) = Inr exampleWeatherResponse"
    by (simp add: exampleCepResponse_def example_weather)
  have n: "snd (HandlerCep exampleEnvB ''29902555'')
             \<noteq> \<lparr>status = 200,
                 body = TemperatureBody \<lparr>City = vitoria, TempC = Finite (57 / 2),
                                         TempF = const64 (833 / 10),
                                         TempK = const64 (30165 / 100)\<rparr>\<rparr>"
    using const64_833 by (simp add: example_handler exampleTemperature_def)
  show ?thesis
    using w n by (simp add: example_valid example_directory exampleCepResponse_def
                            exampleWeatherResponse_def)
qed

text \<open>
  Claim C9, amended. With the city of the scenario, a directory lookup and a weather
  lookup that succeed and a reading of 28.5, \<open>HandlerCep\<close> answers 200 with
  \<open>TempC = 28.5\<close>, \<open>TempK = 301.65\<close>, and \<open>TempF\<close> the float64 value of
  \<^verbatim>\<open>28.5*1.8 + 32\<close>: that is 83.3 when the compiler fuses the product and the sum,
  and the next float64 above it, \<open>5861716389999412 / 2 ^ 46\<close>, when it does not
  (83.3 itself is \<open>5861716389999411 / 2 ^ 46\<close>).
\<close>

theorem C9_scenario_response:
  assumes "validCepRegex cep"
    and "snd (CepAwesomeapi env cep) = Inr c"
    and "City_cep c = vitoria"
    and "snd (WeatherApi env (Latitude c) (Longitude c)) = Inr w"
    and "Temperature2M (Current w) = Finite (57 / 2)"
  shows "snd (HandlerCep env cep)
           = \<lparr>status = 200,
              body = TemperatureBody
                       \<lparr>City = vitoria, TempC = Finite (57 / 2),
                        TempF = (if fusedMulAdd env then const64 (833 / 10)
                                 else Finite (5861716389999412 / 2 ^ 46)),
                        TempK = const64 (30165 / 100)\<rparr>\<rparr>
         \<and> const64 (833 / 10) = Finite (5861716389999411 / 2 ^ 46)"
proof -
  have f: "mulAdd (fusedMulAdd env) (Finite (57 / 2)) (const64 (18 / 10)) (Finite 32)
             = (if fusedMulAdd env then const64 (833 / 10)
                else Finite (5861716389999412 / 2 ^ 46))"
    using tempF_285_unfused tempF_285_fused by (cases "fusedMulAdd env") simp_all
  have h: "snd (HandlerCep env cep)
           = \<lparr>status = 200,
              body = TemperatureBody
                       \<lparr>City = City_cep c, TempC = Temperature2M (Current w),
                        TempF = mulAdd (fusedMulAdd env) (Temperature2M (Current w))
                                  (const64 (18 / 10)) (Finite 32),
                        TempK = fadd (Temperature2M (Current w)) (const64 (27315 / 100))\<rparr>\<rparr>"
    using assms(2,4)
    by (cases "CepAwesomeapi env cep"; cases "WeatherApi env (Latitude c) (Longitude c)")
       (simp add: HandlerCep_valid [OF assms(1)])
  show ?thesis
    unfolding h assms(3,5) f tempK_285 using const64_833 by simp
qed

text \<open>
  The amended C9 at the scenario of the README, without and with fusion.
\<close>

theorem C9_scenario_response_witness:
  "validCepRegex ''29902555''
   \<and> snd (CepAwesomeapi exampleEnvB ''29902555'') = Inr exampleCepResponse
   \<and> City_cep exampleCepResponse = vitoria
   \<and> snd (WeatherApi exampleEnvB (Latitude exampleCepResponse) (Longitude exampleCepResponse))
       = Inr exampleWeatherResponse
   \<and> Temperature2M (Current exampleWeatherResponse) = Finite (57 / 2)
   \<and> \<not> fusedMulAdd exampleEnvB
   \<and> snd (HandlerCep exampleEnvB ''29902555'')
       = \<lparr>status = 200,
          body = TemperatureBody \<lparr>City = vitoria, TempC = Finite (57 / 2),
                                  TempF = Finite (5861716389999412 / 2 ^ 46),
                                  TempK = const64 (30165 / 100)\<rparr>\<rparr>
   \<and> snd (HandlerCep (exampleEnvB\<lparr>fusedMulAdd := True\<rparr>) ''29902555'')
       = \<lparr>status = 200,
          body = TemperatureBody \<lparr>City = vitoria, TempC = Finite (57 / 2),
                                  TempF = const64 (833 / 10),
                                  TempK = const64 (30165 / 100)\<rparr>\<rparr>"
proof -
  let ?f = "exampleEnvB\<lparr>fusedMulAdd := True\<rparr>"
  have c: "snd (CepAwesomeapi exampleEnvB ''29902555'') = Inr exampleCepResponse"
    by (simp add: example_directory)
  have y: "City_cep exampleCepResponse = vitoria"
    by (simp add: exampleCepResponse_def)
  have w: "snd (WeatherApi exampleEnvB (Latitude exampleCepResponse)
                  (Longitude exampleCepResponse)) = Inr exampleWeatherResponse"
    by (simp add: exampleCepResponse_def example_weather)
  have t: "Temperature2M (Current exampleWeatherResponse) = Finite (57 / 2)"
    by (simp add: exampleWeatherResponse_def)
  have c': "snd (CepAwesomeapi ?f ''29902555'') = Inr exampleCepResponse"
    by (simp add: CepAwesomeapi_def exampleEnvB_def exampleCepResponse_def)
  have w': "snd (WeatherApi ?f (Latitude exampleCepResponse) (Longitude exampleCepResponse))
              = Inr exampleWeatherResponse"
    by (simp add: WeatherApi_def exampleEnvB_def exampleCepResponse_def
                  directoryURL_neq_weatherURL)
  have n: "\<not> fusedMulAdd exampleEnvB" "fusedMulAdd ?f"
    by (simp_all add: exampleEnvB_def)
  show ?thesis
    using C9_scenario_response [OF example_valid c y w t] C9_scenario_response [OF example_valid c' y w' t]
          example_valid c y w t n
    by simp
qed

subsection \<open>C10: the statuses of ServiceB\<close>

text \<open>
  Claim C10. Whatever the request and whatever the adapters return, \<open>HandlerCep\<close>
  answers 422 with the error \<^verbatim>\<open>invalid zipcode\<close>, or 404 with the error
  \<^verbatim>\<open>can not find zipcode\<close>, or 200 with a \<open>Temperature\<close>; it has no other
  answer, and no 500 in particular.
\<close>

theorem C10_three_statuses:
  "snd (HandlerCep env cep) = \<lparr>status = 422, body = ErrorBody ''invalid zipcode''\<rparr>
   \<or> snd (HandlerCep env cep) = \<lparr>status = 404, body = ErrorBody ''can not find zipcode''\<rparr>
   \<or> (\<exists>t. snd (HandlerCep env cep) = \<lparr>status = 200, body = TemperatureBody t\<rparr>)"
proof (cases "validCepRegex cep")
  case False
  then show ?thesis by (simp add: HandlerCep_invalid invalidZipcode_def)
next
  case True
  then show ?thesis
    by (simp add: HandlerCep_valid canNotFindZipcode_def split: prod.splits sum.splits)
qed

text \<open>
  C10 at three requests of the scenario, one for each answer.
\<close>

theorem C10_three_statuses_witness:
  "snd (HandlerCep exampleEnvB ''29902555'')
     = \<lparr>status = 200, body = TemperatureBody exampleTemperature\<rparr>
   \<and> snd (HandlerCep exampleEnvB ''123'')
     = \<lparr>status = 422, body = ErrorBody ''invalid zipcode''\<rparr>
   \<and> snd (HandlerCep exampleEnvB ''99999999'')
     = \<lparr>status = 404, body = ErrorBody ''can not find zipcode''\<rparr>"
proof -
  have n: "snd (HandlerCep exampleEnvB ''123'')
             \<noteq> \<lparr>status = 404, body = ErrorBody ''can not find zipcode''\<rparr>"
     "\<And>t. snd (HandlerCep exampleEnvB ''123'') \<noteq> \<lparr>status = 200, body = TemperatureBody t\<rparr>"
    by (simp_all add: HandlerCep_invalid validCepRegex_iff invalidZipcode_def)
  have v: "validCepRegex ''99999999''"
    by (simp add: validCepRegex_iff digit_def)
  have d: "CepAwesomeapi exampleEnvB ''99999999''
             = ([SpanStart ''CepAwesomeapi'', HttpGet (directoryURL ''99999999'')],
                Inl (LibraryError ''no such host''))"
    by (simp add: CepAwesomeapi_def exampleEnvB_def directoryURL_def weatherURL_def)
  have m: "snd (HandlerCep exampleEnvB ''99999999'')
             \<noteq> \<lparr>status = 422, body = ErrorBody ''invalid zipcode''\<rparr>"
     "\<And>t. snd (HandlerCep exampleEnvB ''99999999'') \<noteq> \<lparr>status = 200, body = TemperatureBody t\<rparr>"
    by (simp_all add: HandlerCep_valid [OF v] d canNotFindZipcode_def)
  show ?thesis
    using C10_three_statuses [of exampleEnvB "''123''"] C10_three_statuses [of exampleEnvB "''99999999''"] n m example_handler
    by blast
qed

end
